theory Spec2Isabelle
  imports Complex_Main "HOL-Library.AList" "HOL-Library.Sublist"
begin

section \<open>The training controller of \<^verbatim>\<open>src/train.py\<close>\<close>

text \<open>
  The class \<^verbatim>\<open>Trainer\<close> drives the epochs of a training run, keeps the best
  accuracy seen, and writes and reads checkpoints. Its methods mutate the object and the
  file system and may raise; here every method is a function from the state before the
  call to the state after it, and a method that can raise returns, beside the state it
  leaves behind, either the exception or its result.

  Python floats (losses, accuracies, learning rates) are read as real numbers: the
  controller only averages, compares and stores them. Python integers are \<open>int\<close>.
\<close>

subsection \<open>Python values\<close>

datatype py_error =
  ZeroDivisionError | FileNotFoundError | FileExistsError | NotADirectoryError | RuntimeError

text \<open>
  A Python \<^verbatim>\<open>dict\<close> with string keys, in insertion order: an association list
  whose keys are distinct. \<^verbatim>\<open>k in d\<close> is \<open>k \<in> set (map fst d)\<close>, \<^verbatim>\<open>d[k] = v\<close> is
  \<open>AList.update k v d\<close> (an old key keeps its place, a new one goes to the end), and
  \<^verbatim>\<open>d.update(p)\<close> stores the items of \<open>p\<close> one after the other.
\<close>

type_synonym 'v pydict = "(string \<times> 'v) list"

definition dict_update :: "'v pydict \<Rightarrow> 'v pydict \<Rightarrow> 'v pydict" where
  "dict_update d p = fold (\<lambda>(k, v). AList.update k v) p d"

text \<open>
  \<^verbatim>\<open>os.path.join(a, b)\<close> of \<^verbatim>\<open>posixpath\<close>, for two components.
\<close>

definition path_join :: "string \<Rightarrow> string \<Rightarrow> string" where
  "path_join a b =
     (if b \<noteq> [] \<and> hd b = CHR ''/'' then b
      else if a = [] \<or> last a = CHR ''/'' then a @ b
      else a @ ''/'' @ b)"

text \<open>\<^verbatim>\<open>str(n)\<close> of an integer: decimal digits, with a minus sign when negative.\<close>

definition digit_char :: "nat \<Rightarrow> char" where
  "digit_char d = ''0123456789'' ! d"

fun str_nat :: "nat \<Rightarrow> string" where
  "str_nat n = (if n < 10 then [digit_char n] else str_nat (n div 10) @ [digit_char (n mod 10)])"

declare str_nat.simps [simp del]

definition str_int :: "int \<Rightarrow> string" where
  "str_int i = (if i < 0 then CHR ''-'' # str_nat (nat (- i)) else str_nat (nat i))"

subsection \<open>Data model\<close>

text \<open>The keys of \<^verbatim>\<open>self.config\<close> that the controller reads.\<close>

record config =
  LR :: real
  MOMENTUM :: real
  WEIGHT_DECAY :: real
  WARMUP_EPOCHS :: int
  EPOCHS :: int
  START_LR :: real
  STORE_PARAM_BEFORE :: int
  PRUNE_START_FROM :: int

text \<open>
  The dictionary that \<^verbatim>\<open>save_params\<close> hands to \<^verbatim>\<open>utils.save_checkpoint\<close> and that
  \<^verbatim>\<open>torch.load\<close> gives back. The values of both state dictionaries are Python objects
  of one type \<open>'v\<close>.
\<close>

record 'v checkpoint =
  ck_state_dict :: "'v pydict"
  ck_optimizer :: "'v pydict"
  ck_epoch :: int
  ck_test_acc :: real

text \<open>The arguments of \<^verbatim>\<open>WarmupCosineLR(...)\<close>, as \<^verbatim>\<open>reset\<close> passes them.\<close>

record scheduler =
  sch_warmup_epochs :: int
  sch_epochs :: int
  sch_start_lr :: real
  sch_lr :: real

text \<open>
  What the program prints and hands to its collaborators, in order: one event for each
  \<^verbatim>\<open>print\<close>, each call of \<^verbatim>\<open>utils.save_checkpoint\<close>, \<^verbatim>\<open>wandb.init\<close>,
  \<^verbatim>\<open>utils.wlog_pruned_weight\<close> and \<^verbatim>\<open>wandb.log\<close>. A \<^verbatim>\<open>print\<close> event carries the
  values that the message formats; \<^verbatim>\<open>utils.wlog_pruned_weight\<close>, which is not among the
  sources, only reports to the experiment logger.
\<close>

datatype 'v event =
    PrintEpoch int int real
  | PrintTestAccuracy real
  | PrintStoredInitial
  | PrintSaved string string
  | PrintLoaded string
  | SaveCheckpoint string string "'v checkpoint"
  | WandbInit
  | WlogPrunedWeight
  | WandbLog "(string \<times> real) list"

text \<open>
  The object and its surroundings. \<open>model\<close> is \<^verbatim>\<open>self.model.state_dict()\<close> and
  \<open>optimizer\<close> is \<^verbatim>\<open>self.optimizer.state_dict()\<close>; \<open>model_training\<close> is the mode
  that \<^verbatim>\<open>model.train()\<close> and \<^verbatim>\<open>model.eval()\<close> switch; a loader is the list of batches
  it yields in an epoch. \<open>fs_files\<close> maps the path of a checkpoint file to its content,
  \<open>fs_paths\<close> lists the paths that exist, \<open>trace\<close> is the list of events so far.
\<close>

record ('v, 'b) trainer =
  model :: "'v pydict"
  model_training :: bool
  trainloader :: "'b list"
  testloader :: "'b list"
  config :: config
  wandb_log :: bool
  init_params_path :: string
  dir_prefix :: string
  model_dir :: string
  start_epoch :: int
  best_acc :: real
  optimizer :: "'v pydict"
  lr_scheduler :: scheduler
  best_model_path :: string
  fs_files :: "(string \<times> 'v checkpoint) list"
  fs_paths :: "string list"
  trace :: "'v event list"

text \<open>
  The learning framework, which the controller calls and does not implement:
  \<^item> \<open>SGD params lr momentum weight_decay\<close>: the state of a new \<^verbatim>\<open>optim.SGD\<close>;
  \<^item> \<open>current_lr opt\<close>: \<^verbatim>\<open>optimizer.param_groups[0]["lr"]\<close>;
  \<^item> \<open>lr_schedule s opt epoch\<close>: the optimizer after \<^verbatim>\<open>WarmupCosineLR.__call__\<close>
    (of \<^verbatim>\<open>src.lr_schedulers\<close>, which sets the learning rate of the epoch);
  \<^item> \<open>fit_batch data (model, opt)\<close>: one pass of the body of the training loop
    (zero the gradients, forward, loss, backward, optimizer step): \<^verbatim>\<open>loss.item()\<close>,
    the model and the optimizer after it;
  \<^item> \<open>eval_batch data model\<close>: \<^verbatim>\<open>labels.size(0)\<close> and
    \<^verbatim>\<open>(predicted == labels).sum().item()\<close> for one batch of the test loop;
  \<^item> \<open>tensor_shape v\<close>: the shape of the object \<open>v\<close> when it is a tensor, \<open>None\<close>
    when it is anything else;
  \<^item> \<open>load_rejected own d\<close>: what a call of \<^verbatim>\<open>load_state_dict(d)\<close> that raises leaves
    in a module whose state was \<open>own\<close>.
\<close>

record ('v, 'b) torch =
  SGD :: "'v pydict \<Rightarrow> real \<Rightarrow> real \<Rightarrow> real \<Rightarrow> 'v pydict"
  current_lr :: "'v pydict \<Rightarrow> real"
  lr_schedule :: "scheduler \<Rightarrow> 'v pydict \<Rightarrow> int \<Rightarrow> 'v pydict"
  fit_batch :: "'b \<Rightarrow> 'v pydict \<times> 'v pydict \<Rightarrow> real \<times> 'v pydict \<times> 'v pydict"
  eval_batch :: "'b \<Rightarrow> 'v pydict \<Rightarrow> nat \<times> nat"
  tensor_shape :: "'v \<Rightarrow> nat list option"
  load_rejected :: "'v pydict \<Rightarrow> 'v pydict \<Rightarrow> 'v pydict"

definition emit :: "'v event \<Rightarrow> ('v, 'b) trainer \<Rightarrow> ('v, 'b) trainer" where
  "emit ev t = t\<lparr>trace := trace t @ [ev]\<rparr>"

subsection \<open>Loading parameters\<close>

text \<open>
  \<^verbatim>\<open>Module.load_state_dict(d)\<close> of PyTorch (strict), on a module whose state is \<open>own\<close>.
  It raises \<^verbatim>\<open>RuntimeError\<close> when the keys of \<open>d\<close> are not exactly the module's own, or
  when the value that \<open>d\<close> has for an entry is not a tensor, or is a tensor of another
  shape than the entry. Otherwise every entry of the module takes the value \<open>d\<close> has
  for its key. The result is the outcome and the state of the module after the call.
\<close>

definition load_state_dict ::
  "('v, 'b) torch \<Rightarrow> 'v pydict \<Rightarrow> 'v pydict \<Rightarrow> (py_error + unit) \<times> 'v pydict" where
  "load_state_dict c own d =
     (if set (map fst d) = set (map fst own)
         \<and> list_all (\<lambda>(k, v). case map_of d k of
                                 Some w \<Rightarrow> tensor_shape c w \<noteq> None
                                            \<and> tensor_shape c w = tensor_shape c v
                               | None \<Rightarrow> True) own
      then (Inr (), map (\<lambda>(k, v). (k, case map_of d k of Some w \<Rightarrow> w | None \<Rightarrow> v)) own)
      else (Inl RuntimeError, load_rejected c own d))"

text \<open>The object passed as \<^verbatim>\<open>model\<close> to \<^verbatim>\<open>initialize_params\<close>.\<close>

datatype obj_ref = SelfModel | SelfOptimizer

text \<open>
  \<^verbatim>\<open>initialize_params(self, model, state_dict)\<close>. The body reads and loads
  \<^verbatim>\<open>self.model\<close>; it never uses its argument \<^verbatim>\<open>model\<close>. An exception of
  \<^verbatim>\<open>load_state_dict\<close> leaves the method.
\<close>

definition initialize_params ::
  "('v, 'b) torch \<Rightarrow> obj_ref \<Rightarrow> 'v pydict \<Rightarrow> ('v, 'b) trainer
     \<Rightarrow> (py_error + unit) \<times> ('v, 'b) trainer" where
  "initialize_params c mdl state_dict t =
     (let model_dict = model t;
          pretrained_dict = filter (\<lambda>(k, v). k \<in> set (map fst model_dict)) state_dict;
          model_dict = dict_update model_dict pretrained_dict
      in case load_state_dict c (model t) model_dict of
           (Inl e, m) \<Rightarrow> (Inl e, t\<lparr>model := m\<rparr>)
         | (Inr _, m) \<Rightarrow> (Inr (), t\<lparr>model := m\<rparr>))"

text \<open>
  \<^verbatim>\<open>load_params(self, model_path)\<close>; \<^verbatim>\<open>torch.load\<close> raises \<^verbatim>\<open>FileNotFoundError\<close>
  when there is no file at the path. An exception of either \<^verbatim>\<open>initialize_params\<close> leaves
  the method before \<^verbatim>\<open>start_epoch\<close> is assigned.
\<close>

definition load_params ::
  "('v, 'b) torch \<Rightarrow> string \<Rightarrow> ('v, 'b) trainer \<Rightarrow> (py_error + unit) \<times> ('v, 'b) trainer" where
  "load_params c model_path t =
     (case map_of (fs_files t) model_path of
        None \<Rightarrow> (Inl FileNotFoundError, t)
      | Some checkpt \<Rightarrow>
          (case initialize_params c SelfModel (ck_state_dict checkpt) t of
             (Inl e, t1) \<Rightarrow> (Inl e, t1)
           | (Inr _, t1) \<Rightarrow>
               (case initialize_params c SelfOptimizer (ck_optimizer checkpt) t1 of
                  (Inl e, t2) \<Rightarrow> (Inl e, t2)
                | (Inr _, t2) \<Rightarrow>
                    (Inr (), emit (PrintLoaded model_path)
                               (t2\<lparr>start_epoch := ck_epoch checkpt + 1\<rparr>)))))"

text \<open>\<^verbatim>\<open>load_init_params(self, init_params_path)\<close>.\<close>

definition load_init_params ::
  "('v, 'b) torch \<Rightarrow> string \<Rightarrow> ('v, 'b) trainer \<Rightarrow> (py_error + unit) \<times> ('v, 'b) trainer" where
  "load_init_params c path t =
     (case load_params c path t of
        (Inl e, t1) \<Rightarrow> (Inl e, t1)
      | (Inr _, t1) \<Rightarrow> (Inr (), t1\<lparr>start_epoch := PRUNE_START_FROM (config t1)\<rparr>))"




subsection \<open>Saving parameters\<close>

text \<open>
  Modelled from the spec: \<^verbatim>\<open>utils.save_checkpoint(state, path, filename)\<close> of
  \<^verbatim>\<open>src/utils.py\<close>, which is not among the sources. The spec has \<^verbatim>\<open>save_params\<close>
  serialise the record to \<^verbatim>\<open>path/filename\<close>: the file at the joined path gets the record
  as its content.
\<close>

definition save_checkpoint ::
  "'v checkpoint \<Rightarrow> string \<Rightarrow> string \<Rightarrow> ('v, 'b) trainer \<Rightarrow> ('v, 'b) trainer" where
  "save_checkpoint st path filename t =
     (let p = path_join path filename
      in emit (SaveCheckpoint path filename st)
           (t\<lparr>fs_files := AList.update p st (fs_files t),
              fs_paths := List.insert p (fs_paths t)\<rparr>))"

text \<open>\<^verbatim>\<open>save_params(self, model_path, filename, epoch, test_acc=0.0)\<close>.\<close>

definition save_params ::
  "string \<Rightarrow> string \<Rightarrow> int \<Rightarrow> real \<Rightarrow> ('v, 'b) trainer \<Rightarrow> ('v, 'b) trainer" where
  "save_params model_path filename epoch test_acc t =
     (let t1 = save_checkpoint
                 \<lparr>ck_state_dict = model t, ck_optimizer = optimizer t,
                  ck_epoch = epoch, ck_test_acc = test_acc\<rparr>
                 model_path (filename @ ''.pth.tar'') t
      in emit (PrintSaved model_path filename) t1)"

text \<open>\<^verbatim>\<open>save_init_params(self)\<close>.\<close>

definition save_init_params :: "('v, 'b) trainer \<Rightarrow> ('v, 'b) trainer" where
  "save_init_params t =
     (let filename = ''init_weight'';
          t1 = emit PrintStoredInitial t;
          t2 = save_params (dir_prefix t1) filename (STORE_PARAM_BEFORE (config t1) - 1) 0 t1
      in t2\<lparr>init_params_path := path_join (dir_prefix t2) (filename @ ''.pth.tar'')\<rparr>)"

text \<open>\<^verbatim>\<open>save_best_params(self, test_acc, epoch)\<close>.\<close>

definition save_best_params :: "real \<Rightarrow> int \<Rightarrow> ('v, 'b) trainer \<Rightarrow> ('v, 'b) trainer" where
  "save_best_params test_acc epoch t =
     (let is_best = test_acc > best_acc t;
          t1 = t\<lparr>best_acc := max test_acc (best_acc t)\<rparr>
      in if is_best
         then save_params (best_model_path t1) (str_int epoch) epoch test_acc t1
         else t1)"

subsection \<open>One epoch\<close>

text \<open>The loop of \<^verbatim>\<open>train_one_epoch\<close> over the batches, collecting \<^verbatim>\<open>losses\<close>.\<close>

fun train_batches ::
  "('v, 'b) torch \<Rightarrow> 'b list \<Rightarrow> 'v pydict \<times> 'v pydict \<Rightarrow> real list
     \<Rightarrow> ('v pydict \<times> 'v pydict) \<times> real list" where
  "train_batches c [] mo losses = (mo, losses)"
| "train_batches c (data # rest) mo losses =
     (case fit_batch c data mo of
        (loss, mo') \<Rightarrow> train_batches c rest mo' (losses @ [loss]))"

text \<open>
  \<^verbatim>\<open>train_one_epoch(self)\<close>: \<^verbatim>\<open>sum(losses) / len(losses)\<close> raises
  \<^verbatim>\<open>ZeroDivisionError\<close> when no batch was seen.
\<close>

definition train_one_epoch ::
  "('v, 'b) torch \<Rightarrow> ('v, 'b) trainer \<Rightarrow> (py_error + real) \<times> ('v, 'b) trainer" where
  "train_one_epoch c t =
     (let t1 = t\<lparr>model_training := True\<rparr>
      in case train_batches c (trainloader t1) (model t1, optimizer t1) [] of
           ((m, opt), losses) \<Rightarrow>
             (let t2 = t1\<lparr>model := m, optimizer := opt\<rparr>
              in if length losses = 0 then (Inl ZeroDivisionError, t2)
                 else (Inr (sum_list losses / real (length losses)), t2)))"

text \<open>The loop of \<^verbatim>\<open>test_one_epoch\<close>, accumulating \<^verbatim>\<open>correct\<close> and \<^verbatim>\<open>total\<close>.\<close>

fun test_batches ::
  "('v, 'b) torch \<Rightarrow> 'b list \<Rightarrow> 'v pydict \<Rightarrow> nat \<Rightarrow> nat \<Rightarrow> nat \<times> nat" where
  "test_batches c [] m correct total' = (correct, total')"
| "test_batches c (data # rest) m correct total' =
     (case eval_batch c data m of
        (size0, hits) \<Rightarrow> test_batches c rest m (correct + hits) (total' + size0))"

text \<open>
  \<^verbatim>\<open>test_one_epoch(self)\<close>: \<^verbatim>\<open>100.0 * correct / total\<close> raises \<^verbatim>\<open>ZeroDivisionError\<close>
  when \<^verbatim>\<open>total\<close> is 0.
\<close>

definition test_one_epoch ::
  "('v, 'b) torch \<Rightarrow> ('v, 'b) trainer \<Rightarrow> (py_error + real) \<times> ('v, 'b) trainer" where
  "test_one_epoch c t =
     (let t1 = t\<lparr>model_training := False\<rparr>
      in case test_batches c (testloader t1) (model t1) 0 0 of
           (correct, total') \<Rightarrow>
             if total' = 0 then (Inl ZeroDivisionError, t1)
             else (Inr (100 * real correct / real total'), t1))"

subsection \<open>The run\<close>

text \<open>
  The body of the loop of \<^verbatim>\<open>run\<close> for one \<^verbatim>\<open>epoch\<close>, in two parts. \<^verbatim>\<open>log_data\<close>
  is the caller's dictionary, which the body updates when logging is on; the result is
  the dictionary after the epoch.

  The second part, from the \<^verbatim>\<open>print\<close> of the test accuracy to the end of the body: it
  has the learning rate, the training loss and the test accuracy of the epoch.
\<close>

definition finish_epoch ::
  "(string \<times> real) list \<Rightarrow> int \<Rightarrow> real \<Rightarrow> real \<Rightarrow> real \<Rightarrow> ('v, 'b) trainer
     \<Rightarrow> (string \<times> real) list \<times> ('v, 'b) trainer" where
  "finish_epoch log_data epoch lr train_loss test_acc t =
     (let t5 = emit (PrintTestAccuracy test_acc) t;
          t6 = save_best_params test_acc epoch t5;
          t7 = (if init_params_path t6 = [] \<and> STORE_PARAM_BEFORE (config t6) - 1 = epoch
                then save_init_params t6 else t6)
      in if wandb_log t7
         then (let log_data' = dict_update log_data
                     [(''acc'', test_acc), (''loss'', train_loss), (''lr'', lr)];
                   t8 = emit WlogPrunedWeight t7
               in (log_data', emit (WandbLog log_data') t8))
         else (log_data, t7))"

text \<open>
  The whole body: the scheduler, the training pass and the test pass, either of which may
  raise, then the second part.
\<close>

definition run_epoch ::
  "('v, 'b) torch \<Rightarrow> (string \<times> real) list \<Rightarrow> int \<Rightarrow> ('v, 'b) trainer
     \<Rightarrow> (py_error + (string \<times> real) list) \<times> ('v, 'b) trainer" where
  "run_epoch c log_data epoch t =
     (let t1 = t\<lparr>optimizer := lr_schedule c (lr_scheduler t) (optimizer t) epoch\<rparr>;
          lr = current_lr c (optimizer t1);
          t2 = emit (PrintEpoch epoch (EPOCHS (config t1) - 1) lr) t1
      in case train_one_epoch c t2 of
           (Inl e, t3) \<Rightarrow> (Inl e, t3)
         | (Inr train_loss, t3) \<Rightarrow>
             (case test_one_epoch c t3 of
                (Inl e, t4) \<Rightarrow> (Inl e, t4)
              | (Inr test_acc, t4) \<Rightarrow>
                  (case finish_epoch log_data epoch lr train_loss test_acc t4 of
                     (log_data', t8) \<Rightarrow> (Inr log_data', t8))))"

text \<open>The loop over the epochs; an exception ends it.\<close>

fun run_loop ::
  "('v, 'b) torch \<Rightarrow> (string \<times> real) list \<Rightarrow> int list \<Rightarrow> ('v, 'b) trainer
     \<Rightarrow> (py_error + (string \<times> real) list) \<times> ('v, 'b) trainer" where
  "run_loop c log_data [] t = (Inr log_data, t)"
| "run_loop c log_data (epoch # rest) t =
     (case run_epoch c log_data epoch t of
        (Inl e, t') \<Rightarrow> (Inl e, t')
      | (Inr log_data', t') \<Rightarrow> run_loop c log_data' rest t')"

text \<open>
  \<^verbatim>\<open>run(self, log_data)\<close>; \<^verbatim>\<open>range(a, b)\<close> is the list \<open>[a..b - 1]\<close>.
\<close>

definition run ::
  "('v, 'b) torch \<Rightarrow> (string \<times> real) list \<Rightarrow> ('v, 'b) trainer
     \<Rightarrow> (py_error + (string \<times> real) list) \<times> ('v, 'b) trainer" where
  "run c log_data t =
     (let t0 = (if init_params_path t = [] \<and> STORE_PARAM_BEFORE (config t) = 0
                then save_init_params t else t)
      in run_loop c log_data [start_epoch t0 .. EPOCHS (config t0) - 1] t0)"

subsection \<open>Reset and construction\<close>

text \<open>
  The file system. A path is a string, and \<open>fs_paths\<close> lists the paths that exist, of
  directories and of files, the root among them; \<^verbatim>\<open>os.path.exists(p)\<close> is
  \<open>p \<in> set (fs_paths t)\<close>. The current directory, the empty parent of a relative name,
  always exists. Two spellings of one path are two paths, and permissions are outside
  this model.

  \<^verbatim>\<open>p.rstrip("/")\<close> and \<^verbatim>\<open>os.path.dirname(p)\<close> of \<^verbatim>\<open>posixpath\<close>: the parent of a path
  is the \<^verbatim>\<open>dirname\<close> of the path without its trailing separators.
\<close>

definition rstrip_sep :: "string \<Rightarrow> string" where
  "rstrip_sep p = rev (dropWhile (\<lambda>ch. ch = CHR ''/'') (rev p))"

definition dirname :: "string \<Rightarrow> string" where
  "dirname p =
     (let head = rev (dropWhile (\<lambda>ch. ch \<noteq> CHR ''/'') (rev p))
      in if head \<noteq> [] \<and> rstrip_sep head \<noteq> [] then rstrip_sep head else head)"

text \<open>
  \<^verbatim>\<open>os.mkdir(p)\<close>: \<^verbatim>\<open>FileExistsError\<close> when the path exists, \<^verbatim>\<open>FileNotFoundError\<close>
  when the path is empty or its parent does not exist, \<^verbatim>\<open>NotADirectoryError\<close> when the
  parent is a file.
\<close>

definition os_mkdir ::
  "string \<Rightarrow> ('v, 'b) trainer \<Rightarrow> (py_error + unit) \<times> ('v, 'b) trainer" where
  "os_mkdir p t =
     (let parent = dirname (rstrip_sep p)
      in if p \<in> set (fs_paths t) then (Inl FileExistsError, t)
         else if p = [] then (Inl FileNotFoundError, t)
         else if parent \<in> set (map fst (fs_files t)) then (Inl NotADirectoryError, t)
         else if parent \<noteq> [] \<and> parent \<notin> set (fs_paths t) then (Inl FileNotFoundError, t)
         else (Inr (), t\<lparr>fs_paths := fs_paths t @ [p]\<rparr>))"

text \<open>\<^verbatim>\<open>reset(self, dir_prefix, model_dir)\<close>.\<close>

definition reset ::
  "('v, 'b) torch \<Rightarrow> string \<Rightarrow> string \<Rightarrow> ('v, 'b) trainer
     \<Rightarrow> (py_error + unit) \<times> ('v, 'b) trainer" where
  "reset c dir_prefix' model_dir' t =
     (let t1 = t\<lparr>dir_prefix := dir_prefix', model_dir := model_dir',
                 start_epoch := 0, best_acc := 0\<rparr>;
          t2 = t1\<lparr>optimizer := SGD c (model t1) (LR (config t1)) (MOMENTUM (config t1))
                                 (WEIGHT_DECAY (config t1))\<rparr>;
          t3 = t2\<lparr>lr_scheduler :=
                    \<lparr>sch_warmup_epochs = WARMUP_EPOCHS (config t2),
                     sch_epochs = EPOCHS (config t2),
                     sch_start_lr = START_LR (config t2),
                     sch_lr = LR (config t2)\<rparr>\<rparr>
      in case (if init_params_path t3 \<noteq> []
               then load_init_params c (init_params_path t3) t3 else (Inr (), t3)) of
           (Inl e, t4) \<Rightarrow> (Inl e, t4)
         | (Inr _, t4) \<Rightarrow>
             (let t5 = t4\<lparr>best_model_path := path_join dir_prefix' model_dir'\<rparr>
              in if best_model_path t5 \<notin> set (fs_paths t5)
                 then os_mkdir (best_model_path t5) t5
                 else (Inr (), t5)))"

text \<open>
  \<^verbatim>\<open>Trainer.__init__\<close>, on a file system with the given files and paths. The fields that
  \<^verbatim>\<open>reset\<close> assigns have no value before it; a new module is in training mode.
\<close>

definition Trainer_init ::
  "('v, 'b) torch \<Rightarrow> 'v pydict \<Rightarrow> 'b list \<Rightarrow> 'b list \<Rightarrow> config \<Rightarrow> string \<Rightarrow> string \<Rightarrow> bool
     \<Rightarrow> (string \<times> 'v checkpoint) list \<Rightarrow> string list
     \<Rightarrow> (py_error + unit) \<times> ('v, 'b) trainer" where
  "Trainer_init c mdl trainloader' testloader' config' dir_prefix' model_dir' wandb_log'
       files paths =
     (case reset c dir_prefix' model_dir'
             \<lparr>model = mdl, model_training = True,
              trainloader = trainloader', testloader = testloader',
              config = config', wandb_log = wandb_log',
              init_params_path = [], dir_prefix = [], model_dir = [],
              start_epoch = 0, best_acc = 0, optimizer = [],
              lr_scheduler = \<lparr>sch_warmup_epochs = 0, sch_epochs = 0,
                              sch_start_lr = 0, sch_lr = 0\<rparr>,
              best_model_path = [],
              fs_files = files, fs_paths = paths, trace = []\<rparr> of
        (Inl e, t) \<Rightarrow> (Inl e, t)
      | (Inr _, t) \<Rightarrow> (Inr (), if wandb_log t then emit WandbInit t else t))"

subsection \<open>Reading the trace\<close>

text \<open>The events a call added: those of the state after it beyond those before it.\<close>

definition new_events :: "('v, 'b) trainer \<Rightarrow> ('v, 'b) trainer \<Rightarrow> 'v event list" where
  "new_events t t' = drop (length (trace t)) (trace t')"

text \<open>
  What a run is set up with: the attributes of the controller that no run assigns.
\<close>

definition same_setup :: "('v, 'b) trainer \<Rightarrow> ('v, 'b) trainer \<Rightarrow> bool" where
  "same_setup t t' \<longleftrightarrow>
     config t' = config t \<and> dir_prefix t' = dir_prefix t \<and> model_dir t' = model_dir t
     \<and> start_epoch t' = start_epoch t \<and> wandb_log t' = wandb_log t
     \<and> trainloader t' = trainloader t \<and> testloader t' = testloader t
     \<and> lr_scheduler t' = lr_scheduler t \<and> best_model_path t' = best_model_path t"

text \<open>A write of the checkpoint named \<^verbatim>\<open>init_weight\<close>.\<close>

fun is_init_save :: "'v event \<Rightarrow> bool" where
  "is_init_save (SaveCheckpoint path filename st) = (filename = ''init_weight.pth.tar'')"
| "is_init_save _ = False"

definition init_saves :: "'v event list \<Rightarrow> nat" where
  "init_saves evs = length (filter is_init_save evs)"

text \<open>The events before the first write of the checkpoint named \<^verbatim>\<open>init_weight\<close>.\<close>

definition before_init_save :: "'v event list \<Rightarrow> 'v event list" where
  "before_init_save evs = takeWhile (\<lambda>ev. \<not> is_init_save ev) evs"

text \<open>A write of any checkpoint.\<close>

fun is_save :: "'v event \<Rightarrow> bool" where
  "is_save (SaveCheckpoint path filename st) = True"
| "is_save _ = False"

text \<open>The test accuracies and the epochs that the events report, in order.\<close>

fun test_accs :: "'v event list \<Rightarrow> real list" where
  "test_accs [] = []"
| "test_accs (PrintTestAccuracy a # evs) = a # test_accs evs"
| "test_accs (_ # evs) = test_accs evs"

fun epochs_begun :: "'v event list \<Rightarrow> int list" where
  "epochs_begun [] = []"
| "epochs_begun (PrintEpoch e l lr # evs) = e # epochs_begun evs"
| "epochs_begun (_ # evs) = epochs_begun evs"

subsection \<open>Example: the scenario of the specification\<close>

text \<open>
  A learning framework small enough to run by hand. The model has one weight \<open>w\<close>, a
  batch is a number, a training step adds the batch to the weight and counts the step in
  the optimizer state, and a test batch has 10 labels of which 5, 7 or 6 are right,
  according to the weight. With two training batches and one test batch, three epochs
  give the accuracies 50, 70 and 60. A value below 100 is a scalar tensor, a value from
  100 on stands for a tensor of shape \<open>[2]\<close>; a load that raises leaves the module as it
  was.
\<close>

definition demo_torch :: "(nat, nat) torch" where
  "demo_torch =
     \<lparr>SGD = (\<lambda>params lr momentum weight_decay. [(''state'', 0), (''param_groups'', 0)]),
      current_lr = (\<lambda>opt. 1 / 10),
      lr_schedule = (\<lambda>s opt epoch. opt),
      fit_batch = (\<lambda>data (m, opt).
         (1, map (\<lambda>(k, v). (k, v + data)) m,
             map (\<lambda>(k, v). (k, if k = ''state'' then v + 1 else v)) opt)),
      eval_batch = (\<lambda>data m.
         (10, case map_of m ''w'' of
                Some w \<Rightarrow> (if w = 2 then 5 else if w = 4 then 7 else 6)
              | None \<Rightarrow> 0)),
      tensor_shape = (\<lambda>v. Some (if v < 100 then [] else [2])),
      load_rejected = (\<lambda>own d. own)\<rparr>"

definition demo_config :: config where
  "demo_config =
     \<lparr>LR = 1 / 10, MOMENTUM = 9 / 10, WEIGHT_DECAY = 0, WARMUP_EPOCHS = 0, EPOCHS = 3,
      START_LR = 1 / 100, STORE_PARAM_BEFORE = 0, PRUNE_START_FROM = 1\<rparr>"

text \<open>A new controller on a file system with the directory \<^verbatim>\<open>out\<close> and nothing else.\<close>

definition demo_trainer :: "(nat, nat) trainer" where
  "demo_trainer =
     snd (Trainer_init demo_torch [(''w'', 0)] [1, 1] [0] demo_config ''out'' ''best'' False
            [] [''out''])"

text \<open>The controller after its first run.\<close>

definition demo_after_run :: "(nat, nat) trainer" where
  "demo_after_run = snd (run demo_torch [] demo_trainer)"

text \<open>A new controller on the file system that the first run left.\<close>

definition demo_resumed :: "(nat, nat) trainer" where
  "demo_resumed =
     snd (Trainer_init demo_torch [(''w'', 0)] [1, 1] [0] demo_config ''out'' ''best'' False
            (fs_files demo_after_run) (fs_paths demo_after_run))"

text \<open>
  A new controller whose configuration stores the initial weights after epoch 1
  (\<^verbatim>\<open>STORE_PARAM_BEFORE\<close> is 2).
\<close>

definition demo_store_later :: "(nat, nat) trainer" where
  "demo_store_later =
     snd (Trainer_init demo_torch [(''w'', 0)] [1, 1] [0]
            (demo_config\<lparr>STORE_PARAM_BEFORE := 2\<rparr>) ''out'' ''best'' False [] [''out''])"





section \<open>Properties\<close>

subsection \<open>Dictionaries\<close>





subsection \<open>Partial loading\<close>













subsection \<open>Strings, events and the parts of an epoch\<close>

lemma str_nat_nonempty: "str_nat n \<noteq> []"
  by (induction n rule: str_nat.induct) (subst str_nat.simps, simp)

lemma hd_str_nat: "hd (str_nat n) \<in> set ''0123456789''"
proof (induction n rule: str_nat.induct)
  case (1 n)
  show ?case
  proof (cases "n < 10")
    case True
    then have "''0123456789'' ! n \<in> set ''0123456789''"
      by (intro nth_mem) simp
    with True show ?thesis
      by (subst str_nat.simps) (simp only: if_True list.sel digit_char_def)
  next
    case False
    with 1 have "hd (str_nat (n div 10)) \<in> set ''0123456789''" by simp
    with False show ?thesis
      by (subst str_nat.simps) (simp add: str_nat_nonempty)
  qed
qed

lemma str_int_not_init_weight: "str_int e @ ''.pth.tar'' \<noteq> ''init_weight.pth.tar''"
proof
  assume "str_int e @ ''.pth.tar'' = ''init_weight.pth.tar''"
  then have "str_int e @ ''.pth.tar'' = ''init_weight'' @ ''.pth.tar''" by simp
  then have eq: "str_int e = ''init_weight''" by (simp only: append_same_eq)
  show False
  proof (cases "e < 0")
    case True
    with eq show False by (simp add: str_int_def)
  next
    case False
    with eq have "hd (str_nat (nat e)) = CHR ''i''" by (simp add: str_int_def)
    with hd_str_nat [of "nat e"] show False by simp
  qed
qed

lemma path_join_nonempty: "b \<noteq> [] \<Longrightarrow> path_join a b \<noteq> []"
  by (simp add: path_join_def)

lemma length_train_batches:
  "length (snd (train_batches c ds mo ls)) = length ls + length ds"
  by (induction ds arbitrary: mo ls) (auto split: prod.splits)

lemma train_one_epoch_cases:
  obtains (fail) m opt where "trainloader t = []"
      "train_one_epoch c t =
         (Inl ZeroDivisionError, t\<lparr>model_training := True, model := m, optimizer := opt\<rparr>)"
  | (ok) m opt l where "trainloader t \<noteq> []"
      "train_one_epoch c t = (Inr l, t\<lparr>model_training := True, model := m, optimizer := opt\<rparr>)"
proof -
  obtain m opt ls where tb: "train_batches c (trainloader t) (model t, optimizer t) [] = ((m, opt), ls)"
    by (metis surj_pair)
  then have len: "length ls = length (trainloader t)"
    using length_train_batches [of c "trainloader t" "(model t, optimizer t)" "[]"] by simp
  show thesis
  proof (cases "trainloader t = []")
    case True
    with len have "ls = []" by simp
    with tb have "train_one_epoch c t =
         (Inl ZeroDivisionError, t\<lparr>model_training := True, model := m, optimizer := opt\<rparr>)"
      by (simp add: train_one_epoch_def)
    with True show thesis by (rule fail)
  next
    case False
    with len have "ls \<noteq> []" by auto
    with tb have "train_one_epoch c t =
         (Inr (sum_list ls / real (length ls)), t\<lparr>model_training := True, model := m, optimizer := opt\<rparr>)"
      by (simp add: train_one_epoch_def)
    with False show thesis by (rule ok)
  qed
qed

lemma test_one_epoch_cases:
  obtains (fail) "test_one_epoch c t = (Inl ZeroDivisionError, t\<lparr>model_training := False\<rparr>)"
  | (ok) a where "testloader t \<noteq> []" "0 \<le> a"
      "test_one_epoch c t = (Inr a, t\<lparr>model_training := False\<rparr>)"
proof -
  obtain correct n where tb: "test_batches c (testloader t) (model t) 0 0 = (correct, n)"
    by (metis surj_pair)
  show thesis
  proof (cases "n = 0")
    case True
    with tb have "test_one_epoch c t = (Inl ZeroDivisionError, t\<lparr>model_training := False\<rparr>)"
      by (simp add: test_one_epoch_def)
    then show thesis by (rule fail)
  next
    case False
    with tb have "test_one_epoch c t =
        (Inr (100 * real correct / real n), t\<lparr>model_training := False\<rparr>)"
      by (simp add: test_one_epoch_def)
    moreover have "0 \<le> 100 * real correct / real n" by simp
    moreover from False tb have "testloader t \<noteq> []" by auto
    ultimately show thesis by (intro ok)
  qed
qed

lemma test_one_epoch_empty:
  "testloader t = [] \<Longrightarrow> fst (test_one_epoch c t) = Inl ZeroDivisionError"
  by (simp add: test_one_epoch_def)


lemma save_params_eq:
  "save_params p f e a t =
     t\<lparr>fs_files := AList.update (path_join p (f @ ''.pth.tar''))
            \<lparr>ck_state_dict = model t, ck_optimizer = optimizer t,
             ck_epoch = e, ck_test_acc = a\<rparr> (fs_files t),
       fs_paths := List.insert (path_join p (f @ ''.pth.tar'')) (fs_paths t),
       trace := trace t @
         [SaveCheckpoint p (f @ ''.pth.tar'')
            \<lparr>ck_state_dict = model t, ck_optimizer = optimizer t,
             ck_epoch = e, ck_test_acc = a\<rparr>,
          PrintSaved p f]\<rparr>"
  by (simp add: save_params_def save_checkpoint_def emit_def Let_def)

lemma save_init_params_setup: "same_setup t (save_init_params t)"
  by (simp add: save_init_params_def save_params_eq emit_def same_setup_def Let_def)

lemma save_init_params_best_acc: "best_acc (save_init_params t) = best_acc t"
  by (simp add: save_init_params_def save_params_eq emit_def Let_def)

lemma save_init_params_path:
  "init_params_path (save_init_params t) = path_join (dir_prefix t) ''init_weight.pth.tar''"
  by (simp add: save_init_params_def save_params_eq emit_def Let_def)

lemma save_init_params_trace:
  "trace (save_init_params t) = trace t @
     [PrintStoredInitial,
      SaveCheckpoint (dir_prefix t) ''init_weight.pth.tar''
        \<lparr>ck_state_dict = model t, ck_optimizer = optimizer t,
         ck_epoch = STORE_PARAM_BEFORE (config t) - 1, ck_test_acc = 0\<rparr>,
      PrintSaved (dir_prefix t) ''init_weight'']"
  by (simp add: save_init_params_def save_params_eq emit_def Let_def)

lemma save_best_params_setup: "same_setup t (save_best_params a e t)"
  by (simp add: save_best_params_def save_params_eq same_setup_def Let_def)

lemma save_best_params_best_acc: "best_acc (save_best_params a e t) = max a (best_acc t)"
  by (simp add: save_best_params_def save_params_eq Let_def)

lemma save_best_params_path: "init_params_path (save_best_params a e t) = init_params_path t"
  by (simp add: save_best_params_def save_params_eq Let_def)

lemma save_best_params_trace:
  "trace (save_best_params a e t) = trace t @
     (if a > best_acc t
      then [SaveCheckpoint (best_model_path t) (str_int e @ ''.pth.tar'')
              \<lparr>ck_state_dict = model t, ck_optimizer = optimizer t,
               ck_epoch = e, ck_test_acc = a\<rparr>,
            PrintSaved (best_model_path t) (str_int e)]
      else [])"
  by (simp add: save_best_params_def save_params_eq Let_def)

lemma new_events_self: "new_events t t = []"
  by (simp add: new_events_def)

lemma new_events_append:
  "trace t' = trace t @ evs \<Longrightarrow> new_events t t' = evs"
  by (simp add: new_events_def)

lemma new_events_trans:
  assumes "prefix (trace t) (trace t1)" and "prefix (trace t1) (trace t2)"
  shows "new_events t t2 = new_events t t1 @ new_events t1 t2"
proof -
  from assms obtain a b where "trace t1 = trace t @ a" "trace t2 = trace t1 @ b"
    by (auto simp: prefix_def)
  then show ?thesis by (simp add: new_events_def)
qed

lemma init_saves_append: "init_saves (a @ b) = init_saves a + init_saves b"
  by (simp add: init_saves_def)

lemma test_accs_append: "test_accs (a @ b) = test_accs a @ test_accs b"
  by (induction a rule: test_accs.induct) simp_all

lemma epochs_begun_append: "epochs_begun (a @ b) = epochs_begun a @ epochs_begun b"
  by (induction a rule: epochs_begun.induct) simp_all




lemmas save_fields =
  save_init_params_setup [unfolded same_setup_def] save_init_params_best_acc
  save_init_params_path save_init_params_trace
  save_best_params_setup [unfolded same_setup_def] save_best_params_best_acc
  save_best_params_path save_best_params_trace

lemma same_setup_refl: "same_setup t t"
  by (simp add: same_setup_def)

lemma same_setup_trans: "same_setup t t1 \<Longrightarrow> same_setup t1 t2 \<Longrightarrow> same_setup t t2"
  by (simp add: same_setup_def)

lemma finish_epoch_setup: "same_setup t (snd (finish_epoch ld e lr l a t))"
  by (simp add: finish_epoch_def Let_def same_setup_def save_fields emit_def)

lemma finish_epoch_best_acc: "best_acc (snd (finish_epoch ld e lr l a t)) = max a (best_acc t)"
  by (simp add: finish_epoch_def Let_def save_fields emit_def)

lemma finish_epoch_init_path:
  "init_params_path (snd (finish_epoch ld e lr l a t)) =
     (if init_params_path t = [] \<and> STORE_PARAM_BEFORE (config t) - 1 = e
      then path_join (dir_prefix t) ''init_weight.pth.tar'' else init_params_path t)"
  by (simp add: finish_epoch_def Let_def save_fields emit_def)

lemma finish_epoch_trace: "prefix (trace t) (trace (snd (finish_epoch ld e lr l a t)))"
  by (simp add: finish_epoch_def Let_def save_fields emit_def)

lemma finish_epoch_accs: "test_accs (new_events t (snd (finish_epoch ld e lr l a t))) = [a]"
  by (simp add: finish_epoch_def Let_def save_fields emit_def new_events_def)

lemma finish_epoch_epochs: "epochs_begun (new_events t (snd (finish_epoch ld e lr l a t))) = []"
  by (simp add: finish_epoch_def Let_def save_fields emit_def new_events_def)

lemma finish_epoch_init_saves:
  "init_saves (new_events t (snd (finish_epoch ld e lr l a t))) =
     (if init_params_path t = [] \<and> STORE_PARAM_BEFORE (config t) - 1 = e then 1 else 0)"
  by (simp add: finish_epoch_def Let_def save_fields emit_def new_events_def init_saves_def
      str_int_not_init_weight)


lemma run_epoch_cases:
  obtains (fail) t' lr where
      "run_epoch c ld e t = (Inl ZeroDivisionError, t')"
      "same_setup t t'" "init_params_path t' = init_params_path t"
      "best_acc t' = best_acc t"
      "trace t' = trace t @ [PrintEpoch e (EPOCHS (config t) - 1) lr]"
  | (ok) t4 lr l a where
      "trainloader t \<noteq> []" "testloader t \<noteq> []" "0 \<le> a"
      "same_setup t t4" "init_params_path t4 = init_params_path t"
      "best_acc t4 = best_acc t"
      "trace t4 = trace t @ [PrintEpoch e (EPOCHS (config t) - 1) lr]"
      "run_epoch c ld e t =
         (Inr (fst (finish_epoch ld e lr l a t4)), snd (finish_epoch ld e lr l a t4))"
proof -
  define t1 where "t1 = t\<lparr>optimizer := lr_schedule c (lr_scheduler t) (optimizer t) e\<rparr>"
  define lr where "lr = current_lr c (optimizer t1)"
  define t2 where "t2 = emit (PrintEpoch e (EPOCHS (config t1) - 1) lr) t1"
  have t2: "same_setup t t2" "init_params_path t2 = init_params_path t"
    "best_acc t2 = best_acc t" "trace t2 = trace t @ [PrintEpoch e (EPOCHS (config t) - 1) lr]"
    "trainloader t2 = trainloader t" "testloader t2 = testloader t"
    by (simp_all add: t2_def t1_def emit_def same_setup_def)
  have unfold: "run_epoch c ld e t =
     (case train_one_epoch c t2 of
           (Inl e, t3) \<Rightarrow> (Inl e, t3)
         | (Inr train_loss, t3) \<Rightarrow>
             (case test_one_epoch c t3 of
                (Inl e, t4) \<Rightarrow> (Inl e, t4)
              | (Inr test_acc, t4) \<Rightarrow>
                  (case finish_epoch ld e lr train_loss test_acc t4 of
                     (log_data', t8) \<Rightarrow> (Inr log_data', t8))))"
    unfolding run_epoch_def Let_def t2_def lr_def t1_def by (rule refl)
  show thesis
  proof (rule train_one_epoch_cases [of t2 c])
    fix m opt
    let ?t3 = "t2\<lparr>model_training := True, model := m, optimizer := opt\<rparr>"
    assume "trainloader t2 = []" and tr: "train_one_epoch c t2 = (Inl ZeroDivisionError, ?t3)"
    from tr unfold have "run_epoch c ld e t = (Inl ZeroDivisionError, ?t3)" by simp
    moreover from t2 have "same_setup t ?t3" "init_params_path ?t3 = init_params_path t"
      "best_acc ?t3 = best_acc t"
      "trace ?t3 = trace t @ [PrintEpoch e (EPOCHS (config t) - 1) lr]"
      by (simp_all add: same_setup_def)
    ultimately show thesis by (rule that(1))
  next
    fix m opt l
    let ?t3 = "t2\<lparr>model_training := True, model := m, optimizer := opt\<rparr>"
    let ?t4 = "?t3\<lparr>model_training := False\<rparr>"
    assume ne2: "trainloader t2 \<noteq> []" and tr: "train_one_epoch c t2 = (Inr l, ?t3)"
    from t2 have t4: "same_setup t ?t4" "init_params_path ?t4 = init_params_path t"
      "best_acc ?t4 = best_acc t"
      "trace ?t4 = trace t @ [PrintEpoch e (EPOCHS (config t) - 1) lr]"
      by (simp_all add: same_setup_def)
    from ne2 t2 have ne: "trainloader t \<noteq> []" by simp
    show thesis
    proof (rule test_one_epoch_cases [of c ?t3])
      assume "test_one_epoch c ?t3 = (Inl ZeroDivisionError, ?t4)"
      with tr unfold have "run_epoch c ld e t = (Inl ZeroDivisionError, ?t4)" by simp
      then show thesis using t4 by (rule that(1))
    next
      fix a :: real
      assume te: "testloader ?t3 \<noteq> []" and a: "0 \<le> a"
        and "test_one_epoch c ?t3 = (Inr a, ?t4)"
      with tr unfold
      have "run_epoch c ld e t =
          (Inr (fst (finish_epoch ld e lr l a ?t4)), snd (finish_epoch ld e lr l a ?t4))"
        by (simp add: case_prod_unfold)
      moreover from te t2 have "testloader t \<noteq> []" by simp
      ultimately show thesis using ne a t4 by (intro that(2))
    qed
  qed
qed

lemma run_epoch_no_train:
  assumes "trainloader t = []"
  shows "fst (run_epoch c ld e t) = Inl ZeroDivisionError"
  by (rule run_epoch_cases [of c ld e t]) (use assms in simp_all)

lemma run_epoch_no_test:
  assumes "testloader t = []"
  shows "fst (run_epoch c ld e t) = Inl ZeroDivisionError"
  by (rule run_epoch_cases [of c ld e t]) (use assms in simp_all)

lemma run_epoch_setup: "same_setup t (snd (run_epoch c ld e t))"
proof (rule run_epoch_cases [of c ld e t])
  fix t' lr
  assume "run_epoch c ld e t = (Inl ZeroDivisionError, t')" "same_setup t t'"
  then show ?thesis by simp
next
  fix t4 lr l a
  assume "same_setup t t4" "run_epoch c ld e t =
         (Inr (fst (finish_epoch ld e lr l a t4)), snd (finish_epoch ld e lr l a t4))"
  then show ?thesis
    using finish_epoch_setup [of t4 ld e lr l a] by (simp add: same_setup_trans)
qed


lemma prefix_new_events:
  "prefix (trace t) (trace t') \<Longrightarrow> trace t' = trace t @ new_events t t'"
  by (auto simp: prefix_def new_events_def)

lemma finish_epoch_before_init:
  assumes "init_params_path t = []" "STORE_PARAM_BEFORE (config t) - 1 = e"
  shows "test_accs (before_init_save (new_events t (snd (finish_epoch ld e lr l a t)))) = [a]"
    and "epochs_begun (before_init_save (new_events t (snd (finish_epoch ld e lr l a t)))) = []"
  using assms
  by (simp_all add: finish_epoch_def Let_def save_fields emit_def new_events_def
      before_init_save_def str_int_not_init_weight)

lemma run_epoch_step:
  obtains (fail) t' lr where
      "run_epoch c ld e t = (Inl ZeroDivisionError, t')"
      "same_setup t t'" "init_params_path t' = init_params_path t"
      "best_acc t' = best_acc t"
      "trace t' = trace t @ [PrintEpoch e (EPOCHS (config t) - 1) lr]"
  | (ok) ld' t' lr evs a where
      "run_epoch c ld e t = (Inr ld', t')"
      "trainloader t \<noteq> []" "testloader t \<noteq> []" "0 \<le> a"
      "same_setup t t'" "best_acc t' = max a (best_acc t)"
      "init_params_path t' =
         (if init_params_path t = [] \<and> STORE_PARAM_BEFORE (config t) - 1 = e
          then path_join (dir_prefix t) ''init_weight.pth.tar'' else init_params_path t)"
      "trace t' = trace t @ PrintEpoch e (EPOCHS (config t) - 1) lr # evs"
      "test_accs evs = [a]" "epochs_begun evs = []"
      "init_saves evs =
         (if init_params_path t = [] \<and> STORE_PARAM_BEFORE (config t) - 1 = e then 1 else 0)"
      "init_params_path t = [] \<and> STORE_PARAM_BEFORE (config t) - 1 = e
         \<Longrightarrow> test_accs (before_init_save evs) = [a]
           \<and> epochs_begun (before_init_save evs) = []"
proof (rule run_epoch_cases [of c ld e t])
  fix t' lr
  assume "run_epoch c ld e t = (Inl ZeroDivisionError, t')"
      "same_setup t t'" "init_params_path t' = init_params_path t"
      "best_acc t' = best_acc t"
      "trace t' = trace t @ [PrintEpoch e (EPOCHS (config t) - 1) lr]"
  then show thesis by (rule fail)
next
  fix t4 lr l a
  assume tr: "trainloader t \<noteq> []" and te: "testloader t \<noteq> []" and a: "0 \<le> a"
    and s4: "same_setup t t4" and p4: "init_params_path t4 = init_params_path t"
    and b4: "best_acc t4 = best_acc t"
    and t4: "trace t4 = trace t @ [PrintEpoch e (EPOCHS (config t) - 1) lr]"
    and r: "run_epoch c ld e t =
         (Inr (fst (finish_epoch ld e lr l a t4)), snd (finish_epoch ld e lr l a t4))"
  let ?t' = "snd (finish_epoch ld e lr l a t4)"
  let ?evs = "new_events t4 ?t'"
  from s4 have c4: "config t4 = config t" "dir_prefix t4 = dir_prefix t"
    by (simp_all add: same_setup_def)
  have "trace ?t' = trace t4 @ ?evs"
    by (rule prefix_new_events) (rule finish_epoch_trace)
  with t4 have tr': "trace ?t' = trace t @ PrintEpoch e (EPOCHS (config t) - 1) lr # ?evs"
    by simp
  have s': "same_setup t ?t'"
    using s4 finish_epoch_setup by (rule same_setup_trans)
  have b': "best_acc ?t' = max a (best_acc t)"
    by (simp add: finish_epoch_best_acc b4)
  have p': "init_params_path ?t' =
         (if init_params_path t = [] \<and> STORE_PARAM_BEFORE (config t) - 1 = e
          then path_join (dir_prefix t) ''init_weight.pth.tar'' else init_params_path t)"
    by (simp add: finish_epoch_init_path p4 c4)
  have i': "init_saves ?evs =
         (if init_params_path t = [] \<and> STORE_PARAM_BEFORE (config t) - 1 = e then 1 else 0)"
    by (simp add: finish_epoch_init_saves p4 c4)
  have w': "init_params_path t = [] \<and> STORE_PARAM_BEFORE (config t) - 1 = e
         \<Longrightarrow> test_accs (before_init_save ?evs) = [a]
           \<and> epochs_begun (before_init_save ?evs) = []"
    using finish_epoch_before_init [of t4 e ld lr l a] by (simp add: p4 c4)
  show thesis
    using r tr te a s' b' p' tr' finish_epoch_accs finish_epoch_epochs i' w'
    by (rule ok)
qed

subsection \<open>The loop over the epochs\<close>

lemma run_loop_append:
  "run_loop c ld (es1 @ es2) t =
     (case run_loop c ld es1 t of
        (Inl err, t') \<Rightarrow> (Inl err, t')
      | (Inr ld', t') \<Rightarrow> run_loop c ld' es2 t')"
  by (induction es1 arbitrary: ld t) (auto split: prod.splits sum.splits)

lemma run_loop_setup: "same_setup t (snd (run_loop c ld es t))"
proof (induction es arbitrary: ld t)
  case Nil
  show ?case by (simp add: same_setup_refl)
next
  case (Cons e es)
  show ?case
  proof (rule run_epoch_step [of c ld e t])
    fix t' lr
    assume "run_epoch c ld e t = (Inl ZeroDivisionError, t')" "same_setup t t'"
    then show ?thesis by simp
  next
    fix ld' t'
    assume "run_epoch c ld e t = (Inr ld', t')" "same_setup t t'"
    then show ?thesis
      using Cons.IH [of t' ld'] by (simp add: same_setup_trans)
  qed
qed

lemma run_loop_trace: "prefix (trace t) (trace (snd (run_loop c ld es t)))"
proof (induction es arbitrary: ld t)
  case Nil
  show ?case by simp
next
  case (Cons e es)
  show ?case
  proof (rule run_epoch_step [of c ld e t])
    fix t' lr
    assume "run_epoch c ld e t = (Inl ZeroDivisionError, t')"
      "trace t' = trace t @ [PrintEpoch e (EPOCHS (config t) - 1) lr]"
    then show ?thesis by simp
  next
    fix ld' t' lr evs
    assume "run_epoch c ld e t = (Inr ld', t')"
      "trace t' = trace t @ PrintEpoch e (EPOCHS (config t) - 1) lr # evs"
    then show ?thesis
      using Cons.IH [of t' ld'] by (auto simp: prefix_def)
  qed
qed

lemma run_loop_Cons_ok:
  assumes "run_epoch c ld e t = (Inr ld', t1)"
  shows "run_loop c ld (e # es) t = run_loop c ld' es t1"
  using assms by simp

lemma run_loop_Cons_events:
  assumes "run_epoch c ld e t = (Inr ld', t1)" and "trace t1 = trace t @ evs1"
  shows "new_events t (snd (run_loop c ld (e # es) t))
           = evs1 @ new_events t1 (snd (run_loop c ld' es t1))"
proof -
  have "trace (snd (run_loop c ld' es t1)) = trace t1 @ new_events t1 (snd (run_loop c ld' es t1))"
    by (rule prefix_new_events) (rule run_loop_trace)
  with assms(2) have "trace (snd (run_loop c ld' es t1))
      = trace t @ (evs1 @ new_events t1 (snd (run_loop c ld' es t1)))"
    by simp
  then show ?thesis
    by (simp only: run_loop_Cons_ok [OF assms(1)] new_events_append)
qed

lemma run_loop_completed:
  "length (test_accs (new_events t (snd (run_loop c ld es t)))) \<le> length es
   \<and> (isl (fst (run_loop c ld es t))
        \<longleftrightarrow> length (test_accs (new_events t (snd (run_loop c ld es t)))) < length es)"
proof (induction es arbitrary: ld t)
  case Nil
  show ?case by (simp add: new_events_self)
next
  case (Cons e es)
  show ?case
  proof (rule run_epoch_step [of c ld e t])
    fix t1 lr
    assume "run_epoch c ld e t = (Inl ZeroDivisionError, t1)"
      "trace t1 = trace t @ [PrintEpoch e (EPOCHS (config t) - 1) lr]"
    then show ?thesis by (simp add: new_events_append)
  next
    fix ld' t1 lr evs1 a
    assume ok: "run_epoch c ld e t = (Inr ld', t1)"
      and tr: "trace t1 = trace t @ PrintEpoch e (EPOCHS (config t) - 1) lr # evs1"
      and acc: "test_accs evs1 = [a]"
    show ?thesis
      using Cons.IH [where t = t1 and ld = ld'] acc
      by (simp only: run_loop_Cons_events [OF ok tr])
        (simp add: ok test_accs_append)
  qed
qed


lemma run_loop_best_acc:
  "best_acc (snd (run_loop c ld es t))
     = fold max (test_accs (new_events t (snd (run_loop c ld es t)))) (best_acc t)
   \<and> (\<forall>a \<in> set (test_accs (new_events t (snd (run_loop c ld es t)))). 0 \<le> a)"
proof (induction es arbitrary: ld t)
  case Nil
  show ?case by (simp add: new_events_self)
next
  case (Cons e es)
  show ?case
  proof (rule run_epoch_step [of c ld e t])
    fix t1 lr
    assume "run_epoch c ld e t = (Inl ZeroDivisionError, t1)" "best_acc t1 = best_acc t"
      "trace t1 = trace t @ [PrintEpoch e (EPOCHS (config t) - 1) lr]"
    then show ?thesis by (simp add: new_events_append)
  next
    fix ld' t1 lr evs1 a
    assume ok: "run_epoch c ld e t = (Inr ld', t1)"
      and tr: "trace t1 = trace t @ PrintEpoch e (EPOCHS (config t) - 1) lr # evs1"
      and acc: "test_accs evs1 = [a]" and a: "0 \<le> a"
      and best: "best_acc t1 = max a (best_acc t)"
    show ?thesis
      using Cons.IH [where t = t1 and ld = ld'] acc a best
      by (simp only: run_loop_Cons_events [OF ok tr])
        (simp add: ok test_accs_append)
  qed
qed

lemma run_loop_path_kept:
  assumes "init_params_path t \<noteq> []"
  shows "init_params_path (snd (run_loop c ld es t)) = init_params_path t
     \<and> init_saves (new_events t (snd (run_loop c ld es t))) = 0"
  using assms
proof (induction es arbitrary: ld t)
  case Nil
  show ?case by (simp add: new_events_self init_saves_def)
next
  case (Cons e es)
  show ?case
  proof (rule run_epoch_step [of c ld e t])
    fix t1 lr
    assume "run_epoch c ld e t = (Inl ZeroDivisionError, t1)"
      "init_params_path t1 = init_params_path t"
      "trace t1 = trace t @ [PrintEpoch e (EPOCHS (config t) - 1) lr]"
    then show ?thesis by (simp add: new_events_append init_saves_def)
  next
    fix ld' t1 lr evs1
    assume ok: "run_epoch c ld e t = (Inr ld', t1)"
      and tr: "trace t1 = trace t @ PrintEpoch e (EPOCHS (config t) - 1) lr # evs1"
      and p: "init_params_path t1 =
         (if init_params_path t = [] \<and> STORE_PARAM_BEFORE (config t) - 1 = e
          then path_join (dir_prefix t) ''init_weight.pth.tar'' else init_params_path t)"
      and i: "init_saves evs1 =
         (if init_params_path t = [] \<and> STORE_PARAM_BEFORE (config t) - 1 = e then 1 else 0)"
    from p Cons.prems have p1: "init_params_path t1 = init_params_path t" by simp
    with Cons.prems have "init_params_path t1 \<noteq> []" by simp
    from Cons.IH [where t = t1 and ld = ld', OF this] p1 i Cons.prems
    show ?thesis
      by (simp only: run_loop_Cons_events [OF ok tr])
        (simp add: ok init_saves_def)
  qed
qed

lemma before_init_save_append:
  "before_init_save (a @ b) =
     (if init_saves a = 0 then a @ before_init_save b else before_init_save a)"
proof (cases "init_saves a = 0")
  case True
  then have "\<forall>x \<in> set a. \<not> is_init_save x"
    by (simp add: init_saves_def filter_empty_conv)
  then show ?thesis
    using True by (simp add: before_init_save_def)
next
  case False
  then obtain x where "x \<in> set a" "is_init_save x"
    by (auto simp: init_saves_def filter_empty_conv)
  then have "takeWhile (\<lambda>ev. \<not> is_init_save ev) (a @ b) = takeWhile (\<lambda>ev. \<not> is_init_save ev) a"
    by (intro takeWhile_append1) auto
  with False show ?thesis by (simp add: before_init_save_def)
qed

lemma run_loop_path_empty:
  assumes "init_params_path t = []"
  shows "(STORE_PARAM_BEFORE (config t) - 1
            \<notin> set (take (length (test_accs (new_events t (snd (run_loop c ld es t))))) es)
          \<longrightarrow> init_params_path (snd (run_loop c ld es t)) = []
              \<and> init_saves (new_events t (snd (run_loop c ld es t))) = 0)
       \<and> (STORE_PARAM_BEFORE (config t) - 1
            \<in> set (take (length (test_accs (new_events t (snd (run_loop c ld es t))))) es)
          \<longrightarrow> init_params_path (snd (run_loop c ld es t))
                = path_join (dir_prefix t) ''init_weight.pth.tar''
              \<and> init_saves (new_events t (snd (run_loop c ld es t))) = 1
              \<and> epochs_begun (before_init_save (new_events t (snd (run_loop c ld es t))))
                  = takeWhile (\<lambda>e. e \<noteq> STORE_PARAM_BEFORE (config t) - 1) es
                    @ [STORE_PARAM_BEFORE (config t) - 1]
              \<and> length (test_accs (before_init_save (new_events t (snd (run_loop c ld es t)))))
                  = Suc (length (takeWhile (\<lambda>e. e \<noteq> STORE_PARAM_BEFORE (config t) - 1) es)))"
  using assms
proof (induction es arbitrary: ld t)
  case Nil
  show ?case using Nil.prems by (simp add: new_events_self init_saves_def)
next
  case (Cons e es)
  let ?S = "STORE_PARAM_BEFORE (config t) - 1"
  show ?case
  proof (rule run_epoch_step [of c ld e t])
    fix t1 lr
    assume "run_epoch c ld e t = (Inl ZeroDivisionError, t1)"
      "init_params_path t1 = init_params_path t"
      "trace t1 = trace t @ [PrintEpoch e (EPOCHS (config t) - 1) lr]"
    then show ?thesis
      using Cons.prems by (simp add: new_events_append init_saves_def)
  next
    fix ld' t1 lr evs1 a
    assume ok: "run_epoch c ld e t = (Inr ld', t1)"
      and su: "same_setup t t1"
      and tr: "trace t1 = trace t @ PrintEpoch e (EPOCHS (config t) - 1) lr # evs1"
      and p: "init_params_path t1 =
         (if init_params_path t = [] \<and> ?S = e
          then path_join (dir_prefix t) ''init_weight.pth.tar'' else init_params_path t)"
      and acc: "test_accs evs1 = [a]" and ep: "epochs_begun evs1 = []"
      and i: "init_saves evs1 = (if init_params_path t = [] \<and> ?S = e then 1 else 0)"
      and w: "init_params_path t = [] \<and> ?S = e
         \<Longrightarrow> test_accs (before_init_save evs1) = [a]
           \<and> epochs_begun (before_init_save evs1) = []"
    let ?P = "PrintEpoch e (EPOCHS (config t) - 1) lr"
    let ?t' = "snd (run_loop c ld' es t1)"
    let ?new1 = "new_events t1 ?t'"
    have rl: "snd (run_loop c ld (e # es) t) = ?t'"
      by (simp add: ok)
    have ev: "new_events t ?t' = (?P # evs1) @ ?new1"
      using run_loop_Cons_events [OF ok tr, of es] by (simp add: ok)
    from su have cfg: "config t1 = config t" "dir_prefix t1 = dir_prefix t"
      by (simp_all add: same_setup_def)
    have iP: "init_saves (?P # evs1) = init_saves evs1"
      by (simp add: init_saves_def)
    show ?thesis
    proof (cases "?S = e")
      case True
      with p Cons.prems have p1: "init_params_path t1 = path_join (dir_prefix t) ''init_weight.pth.tar''"
        by simp
      then have "init_params_path t1 \<noteq> []"
        by (simp add: path_join_nonempty)
      from run_loop_path_kept [OF this, of c ld' es]
      have kept: "init_params_path ?t' = init_params_path t1" "init_saves ?new1 = 0"
        by simp_all
      from True i Cons.prems have i1: "init_saves evs1 = 1" by simp
      from w True Cons.prems have w1: "test_accs (before_init_save evs1) = [a]"
        "epochs_begun (before_init_save evs1) = []" by simp_all
      have b: "before_init_save ((?P # evs1) @ ?new1) = ?P # before_init_save evs1"
        by (simp only: before_init_save_append iP i1) (simp add: before_init_save_def)
      show ?thesis
        unfolding rl ev
        using True kept p1 i1 w1 acc
        by (simp only: b init_saves_append iP) (simp add: test_accs_append)
    next
      case False
      with p Cons.prems have p1: "init_params_path t1 = []" by simp
      from False i have i1: "init_saves evs1 = 0" by simp
      have b: "before_init_save ((?P # evs1) @ ?new1) = (?P # evs1) @ before_init_save ?new1"
        by (simp only: before_init_save_append iP i1) simp
      from Cons.IH [where t = t1 and ld = ld', OF p1]
      show ?thesis
        unfolding rl ev
        using False i1 acc ep
        by (simp only: b init_saves_append iP cfg)
          (simp add: test_accs_append epochs_begun_append)
    qed
  qed
qed

subsection \<open>The run and the snapshot of the initial weights\<close>

lemma upto_takeWhile_neq:
  assumes "a \<le> x" "x \<le> b"
  shows "takeWhile (\<lambda>e. e \<noteq> x) [a..b] @ [x] = [a..x]"
proof -
  have "[a..b] = [a..x - 1] @ [x..b]"
    using assms by (rule upto_split1)
  also have "[x..b] = x # [x + 1..b]"
    using assms(2) by (simp add: upto_rec1)
  finally have "[a..b] = [a..x - 1] @ x # [x + 1..b]" .
  moreover have "takeWhile (\<lambda>e. e \<noteq> x) ([a..x - 1] @ x # [x + 1..b])
      = [a..x - 1] @ takeWhile (\<lambda>e. e \<noteq> x) (x # [x + 1..b])"
    by (rule takeWhile_append2) auto
  ultimately have "takeWhile (\<lambda>e. e \<noteq> x) [a..b] = [a..x - 1]"
    by simp
  then show ?thesis
    using assms(1) by (simp add: upto_rec2)
qed

text \<open>The state in which \<^verbatim>\<open>run\<close> enters its loop.\<close>

lemma run_unfold:
  "run c ld t =
     run_loop c ld [start_epoch t .. EPOCHS (config t) - 1]
       (if init_params_path t = [] \<and> STORE_PARAM_BEFORE (config t) = 0
        then save_init_params t else t)"
  by (simp add: run_def Let_def save_fields)

lemma run_setup: "same_setup t (snd (run c ld t))"
proof -
  have "same_setup t (if init_params_path t = [] \<and> STORE_PARAM_BEFORE (config t) = 0
        then save_init_params t else t)"
    by (simp add: same_setup_refl save_init_params_setup)
  then show ?thesis
    unfolding run_unfold using run_loop_setup by (rule same_setup_trans)
qed

lemma run_trace: "prefix (trace t) (trace (snd (run c ld t)))"
proof -
  have "prefix (trace t) (trace (if init_params_path t = [] \<and> STORE_PARAM_BEFORE (config t) = 0
        then save_init_params t else t))"
    by (simp add: save_init_params_trace)
  then show ?thesis
    unfolding run_unfold using run_loop_trace by (rule prefix_order.trans)
qed

text \<open>A run that writes the snapshot before its loop.\<close>

lemma run_store_first:
  assumes "init_params_path t = []" "STORE_PARAM_BEFORE (config t) = 0"
  shows "run c ld t = run_loop c ld [start_epoch t .. EPOCHS (config t) - 1] (save_init_params t)"
    and "new_events t (snd (run c ld t)) =
      [PrintStoredInitial,
       SaveCheckpoint (dir_prefix t) ''init_weight.pth.tar''
        \<lparr>ck_state_dict = model t, ck_optimizer = optimizer t,
         ck_epoch = STORE_PARAM_BEFORE (config t) - 1, ck_test_acc = 0\<rparr>,
       PrintSaved (dir_prefix t) ''init_weight'']
      @ new_events (save_init_params t) (snd (run c ld t))"
proof -
  show r: "run c ld t = run_loop c ld [start_epoch t .. EPOCHS (config t) - 1] (save_init_params t)"
    using assms by (simp add: run_unfold)
  have "prefix (trace (save_init_params t)) (trace (snd (run c ld t)))"
    unfolding r by (rule run_loop_trace)
  moreover have "prefix (trace t) (trace (save_init_params t))"
    by (simp add: save_init_params_trace)
  ultimately have "new_events t (snd (run c ld t)) =
      new_events t (save_init_params t) @ new_events (save_init_params t) (snd (run c ld t))"
    by (rule new_events_trans [rotated])
  then show "new_events t (snd (run c ld t)) =
      [PrintStoredInitial,
       SaveCheckpoint (dir_prefix t) ''init_weight.pth.tar''
        \<lparr>ck_state_dict = model t, ck_optimizer = optimizer t,
         ck_epoch = STORE_PARAM_BEFORE (config t) - 1, ck_test_acc = 0\<rparr>,
       PrintSaved (dir_prefix t) ''init_weight'']
      @ new_events (save_init_params t) (snd (run c ld t))"
    by (simp add: new_events_def save_init_params_trace)
qed

lemma run_no_store_first:
  assumes "\<not> (init_params_path t = [] \<and> STORE_PARAM_BEFORE (config t) = 0)"
  shows "run c ld t = run_loop c ld [start_epoch t .. EPOCHS (config t) - 1] t"
  using assms by (auto simp: run_unfold)


lemma run_path_recorded:
  assumes "init_params_path t \<noteq> []"
  shows "init_params_path (snd (run c ld t)) = init_params_path t"
    and "init_saves (new_events t (snd (run c ld t))) = 0"
  using run_loop_path_kept [OF assms, of c ld "[start_epoch t .. EPOCHS (config t) - 1]"] assms
  by (simp_all add: run_no_store_first)

lemma run_store_first_saves:
  assumes "init_params_path t = []" "STORE_PARAM_BEFORE (config t) = 0"
  shows "init_saves (new_events t (snd (run c ld t))) = 1"
    and "epochs_begun (before_init_save (new_events t (snd (run c ld t)))) = []"
    and "init_params_path (snd (run c ld t)) = path_join (dir_prefix t) ''init_weight.pth.tar''"
proof -
  let ?t0 = "save_init_params t"
  have p0: "init_params_path ?t0 \<noteq> []"
    by (simp add: save_init_params_path path_join_nonempty)
  from run_loop_path_kept [OF p0, of c ld "[start_epoch t .. EPOCHS (config t) - 1]"]
  have k: "init_params_path (snd (run c ld t)) = init_params_path ?t0"
    "init_saves (new_events ?t0 (snd (run c ld t))) = 0"
    by (simp_all add: run_store_first(1) [OF assms])
  show "init_saves (new_events t (snd (run c ld t))) = 1"
    by (simp only: run_store_first(2) [OF assms] init_saves_append k) (simp add: init_saves_def)
  show "epochs_begun (before_init_save (new_events t (snd (run c ld t)))) = []"
    by (simp only: run_store_first(2) [OF assms]) (simp add: before_init_save_def)
  show "init_params_path (snd (run c ld t)) = path_join (dir_prefix t) ''init_weight.pth.tar''"
    using k(1) by (simp add: save_init_params_path)
qed

lemma run_loop_events:
  "test_accs (new_events t (snd (run c ld t)))
     = test_accs (new_events
         (if init_params_path t = [] \<and> STORE_PARAM_BEFORE (config t) = 0
          then save_init_params t else t) (snd (run c ld t)))"
  "epochs_begun (new_events t (snd (run c ld t)))
     = epochs_begun (new_events
         (if init_params_path t = [] \<and> STORE_PARAM_BEFORE (config t) = 0
          then save_init_params t else t) (snd (run c ld t)))"
proof -
  let ?t0 = "if init_params_path t = [] \<and> STORE_PARAM_BEFORE (config t) = 0
        then save_init_params t else t"
  have "prefix (trace ?t0) (trace (snd (run c ld t)))"
    unfolding run_unfold by (rule run_loop_trace)
  moreover have "prefix (trace t) (trace ?t0)"
    by (simp add: save_init_params_trace)
  ultimately have split: "new_events t (snd (run c ld t)) =
      new_events t ?t0 @ new_events ?t0 (snd (run c ld t))"
    by (rule new_events_trans [rotated])
  have "test_accs (new_events t ?t0) = []" "epochs_begun (new_events t ?t0) = []"
    by (simp_all add: new_events_def save_init_params_trace)
  then show "test_accs (new_events t (snd (run c ld t)))
      = test_accs (new_events ?t0 (snd (run c ld t)))"
    "epochs_begun (new_events t (snd (run c ld t)))
      = epochs_begun (new_events ?t0 (snd (run c ld t)))"
    by (simp_all only: split test_accs_append epochs_begun_append append_Nil)
qed

lemma run_completed_count:
  assumes "fst (run c ld t) = Inr ld'"
  shows "length (test_accs (new_events t (snd (run c ld t))))
           = length [start_epoch t .. EPOCHS (config t) - 1]"
proof -
  let ?t0 = "if init_params_path t = [] \<and> STORE_PARAM_BEFORE (config t) = 0
        then save_init_params t else t"
  let ?es = "[start_epoch t .. EPOCHS (config t) - 1]"
  from assms have "\<not> isl (fst (run_loop c ld ?es ?t0))"
    by (simp add: run_unfold)
  then have "length (test_accs (new_events ?t0 (snd (run_loop c ld ?es ?t0)))) = length ?es"
    using run_loop_completed [of ?t0 c ld ?es] by linarith
  then show ?thesis
    by (simp only: run_loop_events(1) run_unfold [symmetric])
qed

text \<open>
  C3, as amended. A run writes the checkpoint named \<^verbatim>\<open>init_weight\<close> at most once, and
  not at all when the path of one is already recorded. With no path recorded: when
  \<^verbatim>\<open>STORE_PARAM_BEFORE\<close> is 0 it is written once, before any epoch begins; otherwise a run
  that completes writes it once if epoch \<^verbatim>\<open>STORE_PARAM_BEFORE - 1\<close> is among the epochs
  from \<^verbatim>\<open>start_epoch\<close> up to \<^verbatim>\<open>EPOCHS - 1\<close>, and not at all if it is not; and whenever it is
  written, the epochs begun before the write are those from \<^verbatim>\<open>start_epoch\<close> to
  \<^verbatim>\<open>STORE_PARAM_BEFORE - 1\<close>, each of them tested.
\<close>

theorem run_init_weights_checkpoint:
  "init_saves (new_events t (snd (run c ld t))) \<le> 1
   \<and> (init_params_path t \<noteq> [] \<longrightarrow> init_saves (new_events t (snd (run c ld t))) = 0)
   \<and> (init_params_path t = [] \<and> STORE_PARAM_BEFORE (config t) = 0 \<longrightarrow>
        init_saves (new_events t (snd (run c ld t))) = 1
        \<and> epochs_begun (before_init_save (new_events t (snd (run c ld t)))) = [])
   \<and> (init_params_path t = [] \<and> STORE_PARAM_BEFORE (config t) \<noteq> 0
        \<and> (\<exists>ld'. fst (run c ld t) = Inr ld') \<longrightarrow>
        init_saves (new_events t (snd (run c ld t)))
          = (if start_epoch t \<le> STORE_PARAM_BEFORE (config t) - 1
                \<and> STORE_PARAM_BEFORE (config t) - 1 < EPOCHS (config t) then 1 else 0))
   \<and> (init_params_path t = [] \<and> STORE_PARAM_BEFORE (config t) \<noteq> 0
        \<and> init_saves (new_events t (snd (run c ld t))) = 1 \<longrightarrow>
        epochs_begun (before_init_save (new_events t (snd (run c ld t))))
          = [start_epoch t .. STORE_PARAM_BEFORE (config t) - 1]
        \<and> length (test_accs (before_init_save (new_events t (snd (run c ld t)))))
          = length [start_epoch t .. STORE_PARAM_BEFORE (config t) - 1])"
proof -
  let ?new = "new_events t (snd (run c ld t))"
  let ?S = "STORE_PARAM_BEFORE (config t) - 1"
  let ?es = "[start_epoch t .. EPOCHS (config t) - 1]"
  let ?k = "length (test_accs ?new)"
  have rec: "init_saves ?new = 0" if "init_params_path t \<noteq> []"
    using that by (rule run_path_recorded(2))
  have first: "init_saves ?new = 1 \<and> epochs_begun (before_init_save ?new) = []"
    if "init_params_path t = []" "STORE_PARAM_BEFORE (config t) = 0"
    using run_store_first_saves(1,2) [OF that] by simp
  have loop: "(?S \<notin> set (take ?k ?es) \<longrightarrow> init_saves ?new = 0)
       \<and> (?S \<in> set (take ?k ?es) \<longrightarrow> init_saves ?new = 1
            \<and> epochs_begun (before_init_save ?new) = takeWhile (\<lambda>e. e \<noteq> ?S) ?es @ [?S]
            \<and> length (test_accs (before_init_save ?new))
                = Suc (length (takeWhile (\<lambda>e. e \<noteq> ?S) ?es)))"
    if "init_params_path t = []" "STORE_PARAM_BEFORE (config t) \<noteq> 0"
    using run_loop_path_empty [OF that(1), of c ld ?es] that
    by (simp add: run_no_store_first)
  have most: "init_saves ?new \<le> 1"
  proof (cases "init_params_path t = []")
    case False
    then show ?thesis by (simp add: rec)
  next
    case True
    show ?thesis
    proof (cases "STORE_PARAM_BEFORE (config t) = 0")
      case True
      with \<open>init_params_path t = []\<close> first show ?thesis by simp
    next
      case False
      with \<open>init_params_path t = []\<close> loop show ?thesis
        by (cases "?S \<in> set (take ?k ?es)") simp_all
    qed
  qed
  have fin: "init_saves ?new = (if start_epoch t \<le> ?S \<and> ?S < EPOCHS (config t) then 1 else 0)"
    if e: "init_params_path t = []" "STORE_PARAM_BEFORE (config t) \<noteq> 0"
      and r: "\<exists>ld'. fst (run c ld t) = Inr ld'"
  proof -
    from r obtain ld' where "fst (run c ld t) = Inr ld'" ..
    then have "?k = length ?es" by (rule run_completed_count)
    then have "take ?k ?es = ?es" by simp
    with loop [OF e] show ?thesis by auto
  qed
  have timing: "epochs_begun (before_init_save ?new) = [start_epoch t .. ?S]
        \<and> length (test_accs (before_init_save ?new)) = length [start_epoch t .. ?S]"
    if e: "init_params_path t = []" "STORE_PARAM_BEFORE (config t) \<noteq> 0"
      and one: "init_saves ?new = 1"
  proof -
    from loop [OF e] one have "?S \<in> set (take ?k ?es)" by auto
    then have "?S \<in> set ?es" by (rule in_set_takeD)
    then have b: "start_epoch t \<le> ?S" "?S \<le> EPOCHS (config t) - 1" by simp_all
    from loop [OF e] \<open>?S \<in> set (take ?k ?es)\<close>
    have "epochs_begun (before_init_save ?new) = takeWhile (\<lambda>e. e \<noteq> ?S) ?es @ [?S]"
      "length (test_accs (before_init_save ?new))
         = length (takeWhile (\<lambda>e. e \<noteq> ?S) ?es @ [?S])"
      by simp_all
    then show ?thesis
      by (simp only: upto_takeWhile_neq [OF b])
  qed
  from most rec first fin timing show ?thesis by blast
qed

theorem run_init_weights_checkpoint_witness:
  "init_params_path demo_trainer = [] \<and> STORE_PARAM_BEFORE (config demo_trainer) = 0
   \<and> init_saves (new_events demo_trainer (snd (run demo_torch [] demo_trainer))) = 1
   \<and> epochs_begun (before_init_save
         (new_events demo_trainer (snd (run demo_torch [] demo_trainer)))) = []
   \<and> init_params_path demo_store_later = []
   \<and> STORE_PARAM_BEFORE (config demo_store_later) = 2
   \<and> fst (run demo_torch [] demo_store_later) = Inr []
   \<and> init_saves (new_events demo_store_later (snd (run demo_torch [] demo_store_later))) = 1
   \<and> epochs_begun (before_init_save
         (new_events demo_store_later (snd (run demo_torch [] demo_store_later)))) = [0, 1]
   \<and> init_params_path demo_after_run \<noteq> []
   \<and> init_saves (new_events demo_after_run (snd (run demo_torch [] demo_after_run))) = 0"
proof -
  have h1: "init_params_path demo_trainer = [] \<and> STORE_PARAM_BEFORE (config demo_trainer) = 0"
    by code_simp
  have h2: "init_params_path demo_store_later = []"
    "STORE_PARAM_BEFORE (config demo_store_later) = 2"
    "start_epoch demo_store_later = 0" "EPOCHS (config demo_store_later) = 3"
    by code_simp+
  have h3: "fst (run demo_torch [] demo_store_later) = Inr []"
    by code_simp
  have h4: "init_params_path demo_after_run \<noteq> []"
    by code_simp
  have u: "[0::int..1] = [0, 1]"
    by (simp add: upto.simps)
  from h3 have h3': "\<exists>ld'. fst (run demo_torch [] demo_store_later) = Inr ld'" ..
  have one: "init_saves (new_events demo_store_later (snd (run demo_torch [] demo_store_later))) = 1"
    using run_init_weights_checkpoint [of demo_store_later demo_torch "[]"] h2 h3' by simp
  then have two: "epochs_begun (before_init_save
         (new_events demo_store_later (snd (run demo_torch [] demo_store_later)))) = [0, 1]"
    using run_init_weights_checkpoint [of demo_store_later demo_torch "[]"] h2 u by simp
  show ?thesis
    using h1 h2 h3 h4 one two
      run_init_weights_checkpoint [of demo_trainer demo_torch "[]"]
      run_init_weights_checkpoint [of demo_after_run demo_torch "[]"]
    by simp
qed

text \<open>
  C3 as stated fails for the second run of a controller: the path of the snapshot is on
  record, and the run, which completes, writes none.
\<close>

theorem run_init_weights_counterexample:
  "fst (run demo_torch [] demo_after_run) = Inr []
   \<and> init_saves (new_events demo_after_run (snd (run demo_torch [] demo_after_run))) = 0"
  by code_simp

subsection \<open>The best accuracy\<close>

lemma fold_max_ge: "(b::real) \<le> fold max xs b"
proof (induction xs arbitrary: b)
  case Nil
  show ?case by simp
next
  case (Cons x xs)
  have "b \<le> max x b" by simp
  also have "\<dots> \<le> fold max xs (max x b)" by (rule Cons.IH)
  finally show ?case by simp
qed

lemma run_loop_best_mono:
  "best_acc (snd (run_loop c ld es1 t)) \<le> best_acc (snd (run_loop c ld (es1 @ es2) t))"
proof (cases "run_loop c ld es1 t")
  case (Pair r t1)
  show ?thesis
  proof (cases r)
    case (Inl err)
    with Pair show ?thesis by (simp add: run_loop_append)
  next
    case (Inr ld')
    have "best_acc t1 \<le> best_acc (snd (run_loop c ld' es2 t1))"
      using run_loop_best_acc [where t = t1 and c = c and ld = ld' and es = es2] by (simp add: fold_max_ge)
    with Pair Inr show ?thesis by (simp add: run_loop_append)
  qed
qed

lemma run_best_acc:
  "best_acc (snd (run c ld t))
     = fold max (test_accs (new_events t (snd (run c ld t)))) (best_acc t)"
  "\<forall>a \<in> set (test_accs (new_events t (snd (run c ld t)))). 0 \<le> a"
proof -
  let ?t0 = "if init_params_path t = [] \<and> STORE_PARAM_BEFORE (config t) = 0
        then save_init_params t else t"
  let ?es = "[start_epoch t .. EPOCHS (config t) - 1]"
  have b0: "best_acc ?t0 = best_acc t"
    by (simp add: save_init_params_best_acc)
  have r: "snd (run c ld t) = snd (run_loop c ld ?es ?t0)"
    by (simp only: run_unfold)
  have ev: "test_accs (new_events t (snd (run_loop c ld ?es ?t0)))
      = test_accs (new_events ?t0 (snd (run_loop c ld ?es ?t0)))"
    using run_loop_events(1) [of t c ld] by (simp only: r)
  have L: "best_acc (snd (run_loop c ld ?es ?t0))
      = fold max (test_accs (new_events ?t0 (snd (run_loop c ld ?es ?t0)))) (best_acc ?t0)"
    and A: "\<forall>a \<in> set (test_accs (new_events ?t0 (snd (run_loop c ld ?es ?t0)))). 0 \<le> a"
    using run_loop_best_acc [where t = ?t0 and c = c and ld = ld and es = ?es] by blast+
  show "best_acc (snd (run c ld t))
     = fold max (test_accs (new_events t (snd (run c ld t)))) (best_acc t)"
    using L by (simp only: r ev b0)
  show "\<forall>a \<in> set (test_accs (new_events t (snd (run c ld t)))). 0 \<le> a"
    using A by (simp only: r ev)
qed

text \<open>
  C4, as amended. The best accuracy never decreases from one epoch of the loop to a later
  one, nor over a run. After a run it is the greatest of the best accuracy the run
  started with and the test accuracies the run observed; when a run that started with
  best accuracy 0, as construction and \<^verbatim>\<open>reset\<close> leave it, completes a non-empty range
  of epochs, it is the greatest test accuracy observed.
\<close>

theorem run_best_acc_maximum:
  "best_acc (snd (run_loop c ld es1 t)) \<le> best_acc (snd (run_loop c ld (es1 @ es2) t))
   \<and> best_acc t \<le> best_acc (snd (run c ld t))
   \<and> best_acc (snd (run c ld t))
       = Max (set (best_acc t # test_accs (new_events t (snd (run c ld t)))))
   \<and> ((\<exists>ld'. fst (run c ld t) = Inr ld') \<and> start_epoch t < EPOCHS (config t)
        \<and> best_acc t = 0 \<longrightarrow>
       best_acc (snd (run c ld t)) = Max (set (test_accs (new_events t (snd (run c ld t))))))"
proof (intro conjI impI)
  let ?accs = "test_accs (new_events t (snd (run c ld t)))"
  show "best_acc (snd (run_loop c ld es1 t)) \<le> best_acc (snd (run_loop c ld (es1 @ es2) t))"
    by (rule run_loop_best_mono)
  show "best_acc t \<le> best_acc (snd (run c ld t))"
    by (simp only: run_best_acc(1) fold_max_ge)
  show m: "best_acc (snd (run c ld t)) = Max (set (best_acc t # ?accs))"
    by (simp only: run_best_acc(1) Max.set_eq_fold)
  assume a: "(\<exists>ld'. fst (run c ld t) = Inr ld') \<and> start_epoch t < EPOCHS (config t)
        \<and> best_acc t = 0"
  then obtain ld' where "fst (run c ld t) = Inr ld'" by blast
  then have "length ?accs = length [start_epoch t .. EPOCHS (config t) - 1]"
    by (rule run_completed_count)
  with a have ne: "?accs \<noteq> []" by auto
  then have "0 \<le> Max (set ?accs)"
    using run_best_acc(2) [where t = t and c = c and ld = ld] by (auto simp: Max_ge_iff neq_Nil_conv)
  with ne have "Max (set (0 # ?accs)) = Max (set ?accs)"
    by (simp add: max_def)
  with m a show "best_acc (snd (run c ld t)) = Max (set ?accs)" by simp
qed


theorem run_best_acc_maximum_witness:
  "fst (run demo_torch [] demo_trainer) = Inr []
   \<and> start_epoch demo_trainer < EPOCHS (config demo_trainer)
   \<and> best_acc demo_trainer = 0
   \<and> test_accs (new_events demo_trainer (snd (run demo_torch [] demo_trainer))) = [50, 70, 60]
   \<and> best_acc (snd (run demo_torch [] demo_trainer))
       = Max (set (test_accs (new_events demo_trainer (snd (run demo_torch [] demo_trainer)))))
   \<and> best_acc (snd (run demo_torch [] demo_trainer)) = 70"
proof -
  have h: "fst (run demo_torch [] demo_trainer) = Inr []"
    "start_epoch demo_trainer < EPOCHS (config demo_trainer)"
    "best_acc demo_trainer = 0"
    by code_simp+
  have a: "test_accs (new_events demo_trainer (snd (run demo_torch [] demo_trainer)))
             = [50, 70, 60]"
    by code_simp
  from h(1) have "\<exists>ld'. fst (run demo_torch [] demo_trainer) = Inr ld'" ..
  with h have m: "best_acc (snd (run demo_torch [] demo_trainer))
       = Max (set (test_accs (new_events demo_trainer (snd (run demo_torch [] demo_trainer)))))"
    using run_best_acc_maximum [of demo_torch "[]" "[]" demo_trainer "[]"] by blast
  then have "best_acc (snd (run demo_torch [] demo_trainer)) = 70"
    by (simp only: a) simp
  with h a m show ?thesis by simp
qed

text \<open>
  C4 as stated fails for a run that starts with a best accuracy above all it will
  observe: the second run of the example completes its three epochs with accuracy 60 in
  each, and the best accuracy stays at the 70 of the first run.
\<close>

theorem run_best_acc_counterexample:
  "fst (run demo_torch [] demo_after_run) = Inr []
   \<and> start_epoch demo_after_run < EPOCHS (config demo_after_run)
   \<and> test_accs (new_events demo_after_run (snd (run demo_torch [] demo_after_run)))
       = [60, 60, 60]
   \<and> best_acc (snd (run demo_torch [] demo_after_run)) = 70"
  by code_simp

subsection \<open>Loading a checkpoint\<close>




















text \<open>
  C1 fails on the code. \<^verbatim>\<open>load_params\<close> never assigns the optimizer: both calls of
  \<^verbatim>\<open>initialize_params\<close> load \<^verbatim>\<open>self.model\<close>. A new controller that loads the checkpoint
  of epoch 1 of the example gets its weight, and keeps the state of its own new optimizer
  in place of the one the checkpoint stores.
\<close>

theorem load_params_optimizer_not_restored:
  "map_of (fs_files demo_resumed) ''out/best/1.pth.tar''
     = Some \<lparr>ck_state_dict = [(''w'', 4)],
             ck_optimizer = [(''state'', 4), (''param_groups'', 0)],
             ck_epoch = 1, ck_test_acc = 70\<rparr>
   \<and> fst (load_params demo_torch ''out/best/1.pth.tar'' demo_resumed) = Inr ()
   \<and> model (snd (load_params demo_torch ''out/best/1.pth.tar'' demo_resumed)) = [(''w'', 4)]
   \<and> optimizer demo_resumed = [(''state'', 0), (''param_groups'', 0)]
   \<and> optimizer (snd (load_params demo_torch ''out/best/1.pth.tar'' demo_resumed))
       = [(''state'', 0), (''param_groups'', 0)]"
  by code_simp

subsection \<open>Empty loaders and the best-model checkpoint\<close>

lemma train_one_epoch_empty:
  "trainloader t = [] \<Longrightarrow> fst (train_one_epoch c t) = Inl ZeroDivisionError"
  by (simp add: train_one_epoch_def)

lemma test_one_epoch_no_labels:
  "snd (test_batches c (testloader t) (model t) 0 0) = 0
   \<Longrightarrow> fst (test_one_epoch c t) = Inl ZeroDivisionError"
  by (cases "test_batches c (testloader t) (model t) 0 0") (simp add: test_one_epoch_def)

lemma run_loop_first_fails:
  assumes "fst (run_epoch c ld e t) = Inl err"
  shows "fst (run_loop c ld (e # es) t) = Inl err"
  using assms by (cases "run_epoch c ld e t") simp

lemma run_empty_loader:
  assumes "trainloader t = [] \<or> testloader t = []" "start_epoch t < EPOCHS (config t)"
  shows "fst (run c ld t) = Inl ZeroDivisionError"
proof -
  let ?t0 = "if init_params_path t = [] \<and> STORE_PARAM_BEFORE (config t) = 0
        then save_init_params t else t"
  have "trainloader ?t0 = trainloader t" "testloader ?t0 = testloader t"
    by (simp_all add: save_fields)
  with assms(1) have "fst (run_epoch c ld (start_epoch t) ?t0) = Inl ZeroDivisionError"
    using run_epoch_no_train [of ?t0 c ld "start_epoch t"]
      run_epoch_no_test [of ?t0 c ld "start_epoch t"] by auto
  then have "fst (run_loop c ld (start_epoch t # [start_epoch t + 1 .. EPOCHS (config t) - 1]) ?t0)
      = Inl ZeroDivisionError"
    by (rule run_loop_first_fails)
  moreover from assms(2)
  have "[start_epoch t .. EPOCHS (config t) - 1]
      = start_epoch t # [start_epoch t + 1 .. EPOCHS (config t) - 1]"
    by (simp add: upto_rec1)
  ultimately show ?thesis
    by (simp only: run_unfold)
qed

text \<open>
  C8. With no training batch \<^verbatim>\<open>train_one_epoch\<close> raises \<^verbatim>\<open>ZeroDivisionError\<close>, and with no
  test batch, or no label counted, \<^verbatim>\<open>test_one_epoch\<close> does. Nothing catches either: the
  body of the loop raises it, and so does \<^verbatim>\<open>run\<close> whenever it has an epoch to do.
\<close>

theorem empty_loader_raises:
  "(trainloader t = [] \<longrightarrow>
      fst (train_one_epoch c t) = Inl ZeroDivisionError
      \<and> fst (run_epoch c ld e t) = Inl ZeroDivisionError)
   \<and> (testloader t = [] \<longrightarrow>
      fst (test_one_epoch c t) = Inl ZeroDivisionError
      \<and> fst (run_epoch c ld e t) = Inl ZeroDivisionError)
   \<and> (snd (test_batches c (testloader t) (model t) 0 0) = 0 \<longrightarrow>
      fst (test_one_epoch c t) = Inl ZeroDivisionError)
   \<and> ((trainloader t = [] \<or> testloader t = []) \<and> start_epoch t < EPOCHS (config t) \<longrightarrow>
      fst (run c ld t) = Inl ZeroDivisionError)"
  using train_one_epoch_empty [of t c] test_one_epoch_empty [of t c]
    run_epoch_no_train [of t c ld e] run_epoch_no_test [of t c ld e]
    test_one_epoch_no_labels [of c t] run_empty_loader [of t c ld]
  by blast

theorem empty_loader_raises_witness:
  "trainloader (demo_trainer\<lparr>trainloader := []\<rparr>) = []
   \<and> start_epoch (demo_trainer\<lparr>trainloader := []\<rparr>)
        < EPOCHS (config (demo_trainer\<lparr>trainloader := []\<rparr>))
   \<and> fst (train_one_epoch demo_torch (demo_trainer\<lparr>trainloader := []\<rparr>))
        = Inl ZeroDivisionError
   \<and> fst (run demo_torch [] (demo_trainer\<lparr>trainloader := []\<rparr>)) = Inl ZeroDivisionError
   \<and> testloader (demo_trainer\<lparr>testloader := []\<rparr>) = []
   \<and> fst (test_one_epoch demo_torch (demo_trainer\<lparr>testloader := []\<rparr>))
        = Inl ZeroDivisionError
   \<and> fst (run demo_torch [] (demo_trainer\<lparr>testloader := []\<rparr>)) = Inl ZeroDivisionError"
proof -
  have h: "start_epoch demo_trainer < EPOCHS (config demo_trainer)"
    by code_simp
  show ?thesis
    using h
      empty_loader_raises [of "demo_trainer\<lparr>trainloader := []\<rparr>" demo_torch "[]" 0]
      empty_loader_raises [of "demo_trainer\<lparr>testloader := []\<rparr>" demo_torch "[]" 0]
    by simp
qed

text \<open>
  C5. \<^verbatim>\<open>save_best_params\<close> writes a checkpoint exactly when the test accuracy is strictly
  above the best accuracy so far: then it writes the one named by the epoch, with the
  accuracy, which becomes the best; otherwise, and so on a tie, it changes nothing. The
  same holds of the best-model checkpoint within the body of an epoch.
\<close>

theorem save_best_params_strict:
  "(filter is_save (new_events t (save_best_params a e t)) \<noteq> [] \<longleftrightarrow> best_acc t < a)
   \<and> (best_acc t < a \<longrightarrow>
        new_events t (save_best_params a e t)
          = [SaveCheckpoint (best_model_path t) (str_int e @ ''.pth.tar'')
               \<lparr>ck_state_dict = model t, ck_optimizer = optimizer t,
                ck_epoch = e, ck_test_acc = a\<rparr>,
             PrintSaved (best_model_path t) (str_int e)]
        \<and> map_of (fs_files (save_best_params a e t))
              (path_join (best_model_path t) (str_int e @ ''.pth.tar''))
            = Some \<lparr>ck_state_dict = model t, ck_optimizer = optimizer t,
                    ck_epoch = e, ck_test_acc = a\<rparr>
        \<and> best_acc (save_best_params a e t) = a)
   \<and> (\<not> best_acc t < a \<longrightarrow> save_best_params a e t = t)
   \<and> (filter (\<lambda>ev. is_save ev \<and> \<not> is_init_save ev)
         (new_events t (snd (finish_epoch ld e lr l a t))) \<noteq> [] \<longleftrightarrow> best_acc t < a)"
proof (intro conjI impI)
  show "filter is_save (new_events t (save_best_params a e t)) \<noteq> [] \<longleftrightarrow> best_acc t < a"
    by (simp add: new_events_def save_best_params_trace)
  show "save_best_params a e t = t" if "\<not> best_acc t < a"
    using that by (simp add: save_best_params_def max_def)
  show "filter (\<lambda>ev. is_save ev \<and> \<not> is_init_save ev)
         (new_events t (snd (finish_epoch ld e lr l a t))) \<noteq> [] \<longleftrightarrow> best_acc t < a"
    by (simp add: finish_epoch_def Let_def save_fields emit_def new_events_def
        str_int_not_init_weight)
  assume b: "best_acc t < a"
  show "new_events t (save_best_params a e t)
          = [SaveCheckpoint (best_model_path t) (str_int e @ ''.pth.tar'')
               \<lparr>ck_state_dict = model t, ck_optimizer = optimizer t,
                ck_epoch = e, ck_test_acc = a\<rparr>,
             PrintSaved (best_model_path t) (str_int e)]"
    using b by (simp add: new_events_def save_best_params_trace)
  show "map_of (fs_files (save_best_params a e t))
              (path_join (best_model_path t) (str_int e @ ''.pth.tar''))
            = Some \<lparr>ck_state_dict = model t, ck_optimizer = optimizer t,
                    ck_epoch = e, ck_test_acc = a\<rparr>"
    using b by (simp add: save_best_params_def save_params_eq update_conv')
  show "best_acc (save_best_params a e t) = a"
    using b by (simp add: save_best_params_best_acc)
qed

theorem save_best_params_strict_witness:
  "best_acc demo_after_run = 70
   \<and> save_best_params 60 2 demo_after_run = demo_after_run
   \<and> save_best_params 70 2 demo_after_run = demo_after_run
   \<and> filter is_save (new_events demo_after_run (save_best_params 70 2 demo_after_run)) = []
   \<and> filter is_save (new_events demo_after_run (save_best_params 80 2 demo_after_run)) \<noteq> []
   \<and> best_acc (save_best_params 80 2 demo_after_run) = 80"
proof -
  have h: "best_acc demo_after_run = 70"
    by code_simp
  show ?thesis
    using h
      save_best_params_strict [of demo_after_run 60 2]
      save_best_params_strict [of demo_after_run 70 2]
      save_best_params_strict [of demo_after_run 80 2]
    by (simp add: new_events_self)
qed

subsection \<open>Reset and the recorded path\<close>














end
